theory Spec2Isabelle
  imports Main "HOL-Library.Word"
begin

section \<open>The store configuration of \<^verbatim>\<open>server/config/store_config.go\<close>\<close>

text \<open>
  The file keeps the latest configuration fetched from a store (a TiKV node) inside a
  manager, and derives four region thresholds from it.

  Conventions of the embedding:
  \<^item> A Go pointer of type \<^verbatim>\<open>*T\<close> is a value of type \<open>T option\<close>: \<open>None\<close> is the
    \<^verbatim>\<open>nil\<close> pointer and \<open>Some v\<close> points to an object holding \<open>v\<close>. No function of the
    file writes through a \<^verbatim>\<open>*StoreConfig\<close>, so such a pointer is identified with the
    contents it points to.
  \<^item> A method with a pointer receiver that assigns to a field of the receiver returns
    the receiver's state after the call (explicit state passing).
  \<^item> Go's \<^verbatim>\<open>int\<close> is a 64-bit two's complement integer (the targets the project builds
    for), read with \<open>sint\<close>; \<^verbatim>\<open>uint64\<close> is a 64-bit word read with \<open>uint\<close>.
  \<^item> A Go \<^verbatim>\<open>error\<close> result is a value of the type \<open>error\<close>; a pair \<^verbatim>\<open>(v, err)\<close> of
    which exactly one is meaningful is a sum, with \<open>Inl\<close> for the error.
  \<^item> What the file calls but does not define (the HTTP client, \<^verbatim>\<open>ioutil.ReadAll\<close>, the
    JSON encoder and decoder, \<^verbatim>\<open>typeutil.ParseMBFromText\<close>,
    \<^verbatim>\<open>SecurityConfig.ToTLSConfig\<close>) is a parameter of the function that calls it.
\<close>

subsection \<open>Data\<close>

datatype error = Error string

datatype panic = NilPointerDereference

type_synonym go_int = "64 word"

type_synonym uint64 = "64 word"

text \<open>The conversion \<^verbatim>\<open>uint64(x)\<close> of an \<^verbatim>\<open>int\<close>: the value is sign-extended to 64 bits.\<close>

definition uint64_of_int :: "go_int \<Rightarrow> uint64" where
  "uint64_of_int x = scast x"

definition defaultRegionMaxSize :: uint64 where
  "defaultRegionMaxSize = 144"

definition defaultRegionSplitSize :: uint64 where
  "defaultRegionSplitSize = 96"

definition defaultRegionMaxKey :: uint64 where
  "defaultRegionMaxKey = 1440000"

definition defaultRegionSplitKey :: uint64 where
  "defaultRegionSplitKey = 960000"

record Coprocessor =
  RegionMaxSize :: string
  RegionSplitSize :: string
  RegionMaxKeys :: go_int
  RegionSplitKeys :: go_int

record StoreConfig =
  Coprocessor :: Coprocessor

text \<open>The zero value of a \<^verbatim>\<open>StoreConfig\<close>, as \<^verbatim>\<open>var cfg StoreConfig\<close> declares it.\<close>

definition zero_StoreConfig :: StoreConfig where
  "zero_StoreConfig =
     \<lparr>Coprocessor = \<lparr>RegionMaxSize = [], RegionSplitSize = [],
        RegionMaxKeys = 0, RegionSplitKeys = 0\<rparr>\<rparr>"

text \<open>
  \<^verbatim>\<open>http.Transport\<close> and \<^verbatim>\<open>http.Client\<close>, with the one field each that the file sets. The
  TLS configuration \<^verbatim>\<open>tls.Config\<close> is opaque: a type parameter. The zero client has no
  transport of its own.
\<close>

record 'tls http_Transport =
  TLSClientConfig :: "'tls option"

record 'tls http_Client =
  Transport :: "'tls http_Transport option"

record 'tls StoreConfigManager =
  config :: "StoreConfig option"
  client :: "'tls http_Client"
  schema :: string

text \<open>
  A response body is a handle that \<^verbatim>\<open>ioutil.ReadAll\<close> reads; a response carries its body.
\<close>

type_synonym ReadCloser = nat

record http_Response =
  Body :: ReadCloser

text \<open>
  The environment of one call of \<^verbatim>\<open>Load\<close>: what the network and the decoder answer.
  \<open>http_Get c url\<close> is \<^verbatim>\<open>c.Get(url)\<close>, \<open>ioutil_ReadAll b\<close> is \<^verbatim>\<open>ioutil.ReadAll(b)\<close>, and
  \<open>json_Unmarshal data v\<close> is \<^verbatim>\<open>json.Unmarshal(data, &v)\<close>, returning the error or the
  contents of \<^verbatim>\<open>v\<close> after the call.
\<close>

record 'tls world =
  http_Get :: "'tls http_Client \<Rightarrow> string \<Rightarrow> error + http_Response"
  ioutil_ReadAll :: "ReadCloser \<Rightarrow> error + string"
  json_Unmarshal :: "string \<Rightarrow> StoreConfig \<Rightarrow> error + StoreConfig"

subsection \<open>Construction\<close>

text \<open>
  \<^verbatim>\<open>NewStoreConfigManager\<close>. \<open>ToTLSConfig\<close> is the method of the security configuration,
  returning the pair \<^verbatim>\<open>(cfg, err)\<close>; the TLS client is installed when
  \<^verbatim>\<open>err == nil && cfg != nil\<close>. The function returns a pointer to a fresh manager, which
  is never \<^verbatim>\<open>nil\<close>: the result is the manager itself.
\<close>

definition NewStoreConfigManager ::
  "('sec \<Rightarrow> 'tls option \<times> error option) \<Rightarrow> 'sec option \<Rightarrow> 'tls StoreConfigManager" where
  "NewStoreConfigManager ToTLSConfig security =
     (let manager = \<lparr>config = None, client = \<lparr>Transport = None\<rparr>, schema = ''http''\<rparr> in
      case security of
        None \<Rightarrow> manager
      | Some sc \<Rightarrow>
          (case ToTLSConfig sc of
             (Some cfg, None) \<Rightarrow>
               manager\<lparr>client := \<lparr>Transport = Some \<lparr>TLSClientConfig = Some cfg\<rparr>\<rparr>,
                 schema := ''https''\<rparr>
           | (_, _) \<Rightarrow> manager))"

subsection \<open>The snapshot's methods\<close>

text \<open>
  \<^verbatim>\<open>String\<close>. \<open>MarshalIndent v prefix indent\<close> is \<^verbatim>\<open>json.MarshalIndent(v, prefix, indent)\<close>.
\<close>

definition String ::
  "(StoreConfig option \<Rightarrow> string \<Rightarrow> string \<Rightarrow> error + string) \<Rightarrow> StoreConfig option \<Rightarrow> string" where
  "String MarshalIndent c =
     (case MarshalIndent c [] ''  '' of
        Inl err \<Rightarrow> ''<nil>''
      | Inr data \<Rightarrow> data)"

text \<open>
  The four accessors. \<open>ParseMBFromText text dflt\<close> is \<^verbatim>\<open>typeutil.ParseMBFromText\<close>.
\<close>

definition GetRegionMaxSize ::
  "(string \<Rightarrow> uint64 \<Rightarrow> uint64) \<Rightarrow> StoreConfig option \<Rightarrow> uint64" where
  "GetRegionMaxSize ParseMBFromText c =
     (case c of
        None \<Rightarrow> defaultRegionMaxSize
      | Some sc \<Rightarrow>
          if length (RegionMaxSize (Coprocessor sc)) = 0 then defaultRegionMaxSize
          else ParseMBFromText (RegionMaxSize (Coprocessor sc)) defaultRegionMaxSize)"

definition GetRegionSplitSize ::
  "(string \<Rightarrow> uint64 \<Rightarrow> uint64) \<Rightarrow> StoreConfig option \<Rightarrow> uint64" where
  "GetRegionSplitSize ParseMBFromText c =
     (case c of
        None \<Rightarrow> defaultRegionSplitSize
      | Some sc \<Rightarrow>
          if length (RegionSplitSize (Coprocessor sc)) = 0 then defaultRegionSplitSize
          else ParseMBFromText (RegionSplitSize (Coprocessor sc)) defaultRegionSplitSize)"

definition GetRegionSplitKeys :: "StoreConfig option \<Rightarrow> uint64" where
  "GetRegionSplitKeys c =
     (case c of
        None \<Rightarrow> defaultRegionSplitKey
      | Some sc \<Rightarrow>
          if RegionSplitKeys (Coprocessor sc) = 0 then defaultRegionSplitKey
          else uint64_of_int (RegionSplitKeys (Coprocessor sc)))"

definition GetRegionMaxKeys :: "StoreConfig option \<Rightarrow> uint64" where
  "GetRegionMaxKeys c =
     (case c of
        None \<Rightarrow> defaultRegionMaxKey
      | Some sc \<Rightarrow>
          if RegionMaxKeys (Coprocessor sc) = 0 then defaultRegionMaxKey
          else uint64_of_int (RegionMaxKeys (Coprocessor sc)))"

subsection \<open>The manager's methods\<close>

text \<open>
  \<^verbatim>\<open>UpdateConfig\<close> and \<^verbatim>\<open>GetStoreConfig\<close>. The receiver \<open>m\<close> may be \<^verbatim>\<open>nil\<close>. The atomic store
  and load are, in a sequential run, an assignment to and a read of the field.
\<close>

definition UpdateConfig ::
  "'tls StoreConfigManager option \<Rightarrow> StoreConfig option \<Rightarrow> 'tls StoreConfigManager option" where
  "UpdateConfig m c =
     (if c = None \<or> m = None then m
      else map_option (\<lambda>mgr. mgr\<lparr>config := c\<rparr>) m)"

definition GetStoreConfig :: "'tls StoreConfigManager option \<Rightarrow> StoreConfig option" where
  "GetStoreConfig m =
     (case m of
        None \<Rightarrow> None
      | Some mgr \<Rightarrow> if config mgr = None then None else config mgr)"

text \<open>
  \<^verbatim>\<open>Load\<close>. The method reads \<^verbatim>\<open>m.schema\<close> first, which panics on a \<^verbatim>\<open>nil\<close> receiver.
  Otherwise it returns its error result (\<open>None\<close> for \<^verbatim>\<open>nil\<close>) and the manager after
  the call. The deferred \<^verbatim>\<open>Close\<close> of the body and the log line change neither.
\<close>

definition Load ::
  "'tls world \<Rightarrow> 'tls StoreConfigManager option \<Rightarrow> string \<Rightarrow>
     panic + (error option \<times> 'tls StoreConfigManager option)" where
  "Load w m statusAddress =
     (case m of
        None \<Rightarrow> Inl NilPointerDereference
      | Some mgr \<Rightarrow>
          (let url = schema mgr @ ''://'' @ statusAddress @ ''/config'' in
           case http_Get w (client mgr) url of
             Inl err \<Rightarrow> Inr (Some err, m)
           | Inr resp \<Rightarrow>
               (case ioutil_ReadAll w (Body resp) of
                  Inl err \<Rightarrow> Inr (Some err, m)
                | Inr body \<Rightarrow>
                    (case json_Unmarshal w body zero_StoreConfig of
                       Inl err \<Rightarrow> Inr (Some err, m)
                     | Inr cfg \<Rightarrow> Inr (None, UpdateConfig m (Some cfg))))))"

subsection \<open>Runs of calls on one manager\<close>

text \<open>
  A caller's sequence of calls on one manager. Each \<^verbatim>\<open>Load\<close> comes with the environment
  that answers it. \<open>step\<close> gives the manager after one call, \<open>run\<close> after a sequence; a
  panic ends the run.
\<close>

datatype 'tls call =
  CallLoad "'tls world" string
| CallUpdateConfig "StoreConfig option"
| CallGetStoreConfig

fun step :: "'tls StoreConfigManager option \<Rightarrow> 'tls call \<Rightarrow> panic + 'tls StoreConfigManager option" where
  "step m (CallLoad w statusAddress) =
     (case Load w m statusAddress of Inl p \<Rightarrow> Inl p | Inr (err, m') \<Rightarrow> Inr m')"
| "step m (CallUpdateConfig c) = Inr (UpdateConfig m c)"
| "step m CallGetStoreConfig = Inr m"

fun run :: "'tls StoreConfigManager option \<Rightarrow> 'tls call list \<Rightarrow> panic + 'tls StoreConfigManager option" where
  "run m [] = Inr m"
| "run m (c # cs) = (case step m c of Inl p \<Rightarrow> Inl p | Inr m' \<Rightarrow> run m' cs)"

text \<open>
  Whether a call replaces the held snapshot when made on the manager \<open>m\<close>: an
  \<^verbatim>\<open>UpdateConfig\<close> with a snapshot that is not \<^verbatim>\<open>nil\<close>, or a \<^verbatim>\<open>Load\<close> that returns no error.
\<close>

fun replaces :: "'tls StoreConfigManager option \<Rightarrow> 'tls call \<Rightarrow> bool" where
  "replaces m (CallLoad w statusAddress) =
     (case Load w m statusAddress of Inr (None, m') \<Rightarrow> True | _ \<Rightarrow> False)"
| "replaces m (CallUpdateConfig c) = (c \<noteq> None)"
| "replaces m CallGetStoreConfig = False"

subsection \<open>Concurrent calls on one manager\<close>

text \<open>
  Several goroutines, each making one call of \<^verbatim>\<open>UpdateConfig\<close> or \<^verbatim>\<open>GetStoreConfig\<close> on the
  same manager, which is not \<^verbatim>\<open>nil\<close>. A goroutine is at one of these points:
  \<^item> \<open>Update c\<close>: \<^verbatim>\<open>UpdateConfig(c)\<close> has not run; its step is the test of \<^verbatim>\<open>c\<close> and the
    \<^verbatim>\<open>atomic.StorePointer\<close>;
  \<^item> \<open>GetTest\<close>: \<^verbatim>\<open>GetStoreConfig\<close> is before its test \<^verbatim>\<open>m.config == nil\<close>;
  \<^item> \<open>GetLoad\<close>: \<^verbatim>\<open>GetStoreConfig\<close> has passed the test and is before its
    \<^verbatim>\<open>atomic.LoadPointer\<close>;
  \<^item> \<open>Returned r\<close>: \<^verbatim>\<open>GetStoreConfig\<close> has returned \<open>r\<close>;
  \<^item> \<open>Finished\<close>: \<^verbatim>\<open>UpdateConfig\<close> has returned.

  Each access to the field \<^verbatim>\<open>m.config\<close> is one indivisible step: the store and the load
  are those of \<^verbatim>\<open>sync/atomic\<close>, and the test is one read of the pointer. A snapshot is not
  written after it has been passed to \<^verbatim>\<open>UpdateConfig\<close>, so the pointer stands for its
  contents here too. \<open>interleave\<close> runs the goroutines in the order of a
  schedule, a list of positions in the list of goroutines; a position that names no
  goroutine, or one that has returned, changes nothing.
\<close>

datatype thread =
  Update "StoreConfig option"
| GetTest
| GetLoad
| Returned "StoreConfig option"
| Finished

fun thread_step :: "'tls StoreConfigManager \<Rightarrow> thread \<Rightarrow> 'tls StoreConfigManager \<times> thread" where
  "thread_step mgr (Update c) = (if c = None then mgr else mgr\<lparr>config := c\<rparr>, Finished)"
| "thread_step mgr GetTest = (mgr, if config mgr = None then Returned None else GetLoad)"
| "thread_step mgr GetLoad = (mgr, Returned (config mgr))"
| "thread_step mgr (Returned r) = (mgr, Returned r)"
| "thread_step mgr Finished = (mgr, Finished)"

fun interleave ::
  "nat list \<Rightarrow> 'tls StoreConfigManager \<times> thread list \<Rightarrow> 'tls StoreConfigManager \<times> thread list" where
  "interleave [] s = s"
| "interleave (i # sched) (mgr, ts) =
     (if i < length ts
      then interleave sched
        (fst (thread_step mgr (ts ! i)), ts[i := snd (thread_step mgr (ts ! i))])
      else interleave sched (mgr, ts))"

text \<open>
  The invariant of the interleavings: the held snapshot, every snapshot still to be
  stored and every snapshot already returned lie in the set \<open>A\<close>.
\<close>

fun within :: "StoreConfig option set \<Rightarrow> thread \<Rightarrow> bool" where
  "within A (Update c) = (c \<in> A)"
| "within A (Returned r) = (r \<in> A)"
| "within A GetTest = True"
| "within A GetLoad = True"
| "within A Finished = True"

definition published ::
  "StoreConfig option set \<Rightarrow> 'tls StoreConfigManager \<times> thread list \<Rightarrow> bool" where
  "published A s \<longleftrightarrow> config (fst s) \<in> A \<and> (\<forall>t \<in> set (snd s). within A t)"

subsection \<open>Example environments\<close>

text \<open>
  Concrete inputs at which the properties below are evaluated. \<open>test_world content\<close> is
  a network in which only \<^verbatim>\<open>http://127.0.0.1:20180/config\<close> answers, reading the body gives
  \<open>content\<close>, and the decoder accepts the empty JSON object (which leaves the target as it
  is) and nothing else. \<open>test_ToTLSConfig\<close> converts the security configuration
  \<open>''good''\<close> and fails on any other. \<open>test_MarshalIndent\<close> encodes the \<^verbatim>\<open>nil\<close> pointer and
  fails on any other value.
\<close>

definition test_world :: "error + string \<Rightarrow> 'tls world" where
  "test_world content =
     \<lparr>http_Get = (\<lambda>c url.
        if url = ''http://127.0.0.1:20180/config'' then Inr \<lparr>Body = 0\<rparr>
        else Inl (Error ''no such host'')),
      ioutil_ReadAll = (\<lambda>b. content),
      json_Unmarshal = (\<lambda>data v.
        if data = ''{}'' then Inr v else Inl (Error ''invalid character''))\<rparr>"

definition test_config :: StoreConfig where
  "test_config =
     \<lparr>Coprocessor = \<lparr>RegionMaxSize = ''200MB'', RegionSplitSize = [],
        RegionMaxKeys = 5000, RegionSplitKeys = 0\<rparr>\<rparr>"

definition test_manager :: "string StoreConfigManager" where
  "test_manager =
     \<lparr>config = Some test_config, client = \<lparr>Transport = None\<rparr>, schema = ''http''\<rparr>"

definition test_ToTLSConfig :: "string \<Rightarrow> string option \<times> error option" where
  "test_ToTLSConfig sc =
     (if sc = ''good'' then (Some ''tls'', None) else (None, Some (Error ''bad certificate'')))"

definition test_MarshalIndent :: "StoreConfig option \<Rightarrow> string \<Rightarrow> string \<Rightarrow> error + string" where
  "test_MarshalIndent v prefix indent =
     (case v of None \<Rightarrow> Inr ''null'' | Some sc \<Rightarrow> Inl (Error ''unsupported value''))"

section \<open>Properties\<close>

subsection \<open>Reading a 64-bit word as signed and as unsigned\<close>

lemma uint_of_negative:
  fixes x :: "64 word"
  assumes "sint x < 0"
  shows "uint x = 2 ^ 64 + sint x"
proof -
  have lo: "- (2 ^ 63) \<le> sint x"
    using sint_ge [of x] by simp
  have "uint x = sint x mod 2 ^ 64"
    by (simp add: uint_sint take_bit_eq_mod)
  also have "\<dots> = (sint x + 2 ^ 64) mod 2 ^ 64"
    by simp
  also have "\<dots> = sint x + 2 ^ 64"
    using lo assms by (intro mod_pos_pos_trivial) simp_all
  finally show ?thesis by simp
qed

lemma uint_of_nonnegative:
  fixes x :: "64 word"
  assumes "0 \<le> sint x"
  shows "uint x = sint x"
proof -
  have hi: "sint x < 2 ^ 63"
    using sint_lt [of x] by simp
  have "uint x = sint x mod 2 ^ 64"
    by (simp add: uint_sint take_bit_eq_mod)
  also have "\<dots> = sint x"
    using hi assms by (intro mod_pos_pos_trivial) simp_all
  finally show ?thesis .
qed

subsection \<open>The accessors\<close>

text \<open>
  Claim C2. On a \<^verbatim>\<open>nil\<close> snapshot, and on a snapshot whose two size strings are empty
  and whose two key counts are zero, the accessors \<^verbatim>\<open>GetRegionMaxSize\<close>,
  \<^verbatim>\<open>GetRegionSplitSize\<close>, \<^verbatim>\<open>GetRegionMaxKeys\<close> and \<^verbatim>\<open>GetRegionSplitKeys\<close> return 144, 96,
  1440000 and 960000, whatever the size parser \<open>P\<close> would compute.
\<close>

theorem accessors_default:
  "GetRegionMaxSize P None = 144 \<and> GetRegionSplitSize P None = 96 \<and>
   GetRegionMaxKeys None = 1440000 \<and> GetRegionSplitKeys None = 960000 \<and>
   (RegionMaxSize (Coprocessor sc) = [] \<and> RegionSplitSize (Coprocessor sc) = [] \<and>
    RegionMaxKeys (Coprocessor sc) = 0 \<and> RegionSplitKeys (Coprocessor sc) = 0 \<longrightarrow>
      GetRegionMaxSize P (Some sc) = 144 \<and> GetRegionSplitSize P (Some sc) = 96 \<and>
      GetRegionMaxKeys (Some sc) = 1440000 \<and> GetRegionSplitKeys (Some sc) = 960000)"
  by (simp add: GetRegionMaxSize_def GetRegionSplitSize_def GetRegionMaxKeys_def
      GetRegionSplitKeys_def defaultRegionMaxSize_def defaultRegionSplitSize_def
      defaultRegionMaxKey_def defaultRegionSplitKey_def)

text \<open>
  At the zero-valued snapshot, with a parser that would answer 0 had it been called.
\<close>

theorem accessors_default_witness:
  "GetRegionMaxSize (\<lambda>t d. 0) (Some zero_StoreConfig) = 144 \<and>
   GetRegionSplitSize (\<lambda>t d. 0) (Some zero_StoreConfig) = 96 \<and>
   GetRegionMaxKeys (Some zero_StoreConfig) = 1440000 \<and>
   GetRegionSplitKeys (Some zero_StoreConfig) = 960000 \<and>
   GetRegionMaxSize (\<lambda>t d. 0) None = 144"
  using accessors_default [of "\<lambda>t d. 0" zero_StoreConfig]
  by (simp add: zero_StoreConfig_def)

text \<open>
  Claim C8. On a snapshot that is not \<^verbatim>\<open>nil\<close>, \<^verbatim>\<open>GetRegionMaxKeys\<close> returns the field
  \<^verbatim>\<open>RegionMaxKeys\<close> converted to \<^verbatim>\<open>uint64\<close> when the field is not zero, which for a
  positive field is the same number; \<^verbatim>\<open>GetRegionSplitKeys\<close> does the same with
  \<^verbatim>\<open>RegionSplitKeys\<close>. When the field is zero they return 1440000 and 960000.
\<close>

theorem keys_nonzero:
  "(RegionMaxKeys (Coprocessor sc) \<noteq> 0 \<longrightarrow>
      GetRegionMaxKeys (Some sc) = uint64_of_int (RegionMaxKeys (Coprocessor sc))) \<and>
   (RegionSplitKeys (Coprocessor sc) \<noteq> 0 \<longrightarrow>
      GetRegionSplitKeys (Some sc) = uint64_of_int (RegionSplitKeys (Coprocessor sc))) \<and>
   (0 < sint (RegionMaxKeys (Coprocessor sc)) \<longrightarrow>
      uint (GetRegionMaxKeys (Some sc)) = sint (RegionMaxKeys (Coprocessor sc))) \<and>
   (0 < sint (RegionSplitKeys (Coprocessor sc)) \<longrightarrow>
      uint (GetRegionSplitKeys (Some sc)) = sint (RegionSplitKeys (Coprocessor sc))) \<and>
   (RegionMaxKeys (Coprocessor sc) = 0 \<longrightarrow> GetRegionMaxKeys (Some sc) = 1440000) \<and>
   (RegionSplitKeys (Coprocessor sc) = 0 \<longrightarrow> GetRegionSplitKeys (Some sc) = 960000)"
proof -
  have pos: "uint (uint64_of_int x) = sint x" and nz: "x \<noteq> 0" if "0 < sint x" for x :: go_int
    using that uint_of_nonnegative [of x] by (auto simp: uint64_of_int_def)
  show ?thesis
    using pos nz
    by (simp add: GetRegionMaxKeys_def GetRegionSplitKeys_def defaultRegionMaxKey_def
        defaultRegionSplitKey_def)
qed

text \<open>
  A snapshot with 5000 and 3000 keys, and the zero-valued snapshot.
\<close>

theorem keys_nonzero_witness:
  "uint (GetRegionMaxKeys (Some \<lparr>Coprocessor = \<lparr>RegionMaxSize = ''200MB'',
      RegionSplitSize = [], RegionMaxKeys = 5000, RegionSplitKeys = 3000\<rparr>\<rparr>)) = 5000 \<and>
   uint (GetRegionSplitKeys (Some \<lparr>Coprocessor = \<lparr>RegionMaxSize = ''200MB'',
      RegionSplitSize = [], RegionMaxKeys = 5000, RegionSplitKeys = 3000\<rparr>\<rparr>)) = 3000 \<and>
   GetRegionMaxKeys (Some zero_StoreConfig) = 1440000 \<and>
   GetRegionSplitKeys (Some zero_StoreConfig) = 960000"
  using keys_nonzero [of "\<lparr>Coprocessor = \<lparr>RegionMaxSize = ''200MB'',
      RegionSplitSize = [], RegionMaxKeys = 5000, RegionSplitKeys = 3000\<rparr>\<rparr>"]
    keys_nonzero [of zero_StoreConfig]
  by (simp add: zero_StoreConfig_def uint64_of_int_def)

text \<open>
  Claim C10. On a snapshot that is not \<^verbatim>\<open>nil\<close> and whose \<^verbatim>\<open>RegionMaxKeys\<close> (or
  \<^verbatim>\<open>RegionSplitKeys\<close>) is negative, the accessor does not return the default: the
  conversion to \<^verbatim>\<open>uint64\<close> wraps around, and the result is \<open>2 ^ 64\<close> plus the field.
\<close>

theorem keys_negative:
  "(sint (RegionMaxKeys (Coprocessor sc)) < 0 \<longrightarrow>
      uint (GetRegionMaxKeys (Some sc)) = 2 ^ 64 + sint (RegionMaxKeys (Coprocessor sc)) \<and>
      GetRegionMaxKeys (Some sc) \<noteq> defaultRegionMaxKey) \<and>
   (sint (RegionSplitKeys (Coprocessor sc)) < 0 \<longrightarrow>
      uint (GetRegionSplitKeys (Some sc)) = 2 ^ 64 + sint (RegionSplitKeys (Coprocessor sc)) \<and>
      GetRegionSplitKeys (Some sc) \<noteq> defaultRegionSplitKey)"
proof -
  have neg: "uint (uint64_of_int x) = 2 ^ 64 + sint x" and nz: "x \<noteq> 0"
    and nm: "uint64_of_int x \<noteq> 1440000" and ns: "uint64_of_int x \<noteq> 960000"
    if "sint x < 0" for x :: go_int
    using that uint_of_negative [of x] by (auto simp: uint64_of_int_def)
  show ?thesis
    using neg nz nm ns
    by (simp add: GetRegionMaxKeys_def GetRegionSplitKeys_def defaultRegionMaxKey_def
        defaultRegionSplitKey_def)
qed

text \<open>
  Both fields - 1: both accessors return 18446744073709551615.
\<close>

theorem keys_negative_witness:
  "uint (GetRegionMaxKeys (Some \<lparr>Coprocessor = \<lparr>RegionMaxSize = [],
      RegionSplitSize = [], RegionMaxKeys = - 1, RegionSplitKeys = - 1\<rparr>\<rparr>))
     = 18446744073709551615 \<and>
   uint (GetRegionSplitKeys (Some \<lparr>Coprocessor = \<lparr>RegionMaxSize = [],
      RegionSplitSize = [], RegionMaxKeys = - 1, RegionSplitKeys = - 1\<rparr>\<rparr>))
     = 18446744073709551615"
  using keys_negative [of "\<lparr>Coprocessor = \<lparr>RegionMaxSize = [],
      RegionSplitSize = [], RegionMaxKeys = - 1, RegionSplitKeys = - 1\<rparr>\<rparr>"]
  by simp

subsection \<open>Construction\<close>

text \<open>
  Claim C7. \<^verbatim>\<open>NewStoreConfigManager\<close> always returns a manager, and the manager's scheme
  is decided by the security configuration: without one the scheme is \<^verbatim>\<open>http\<close> and the
  client is the zero client; with one whose conversion returns a TLS configuration and
  no error the scheme is \<^verbatim>\<open>https\<close> and the client's transport carries that TLS
  configuration; with one whose conversion returns an error the scheme is \<^verbatim>\<open>http\<close> and
  the client is the zero client. The new manager holds no snapshot.
\<close>

theorem NewStoreConfigManager_schema:
  "schema (NewStoreConfigManager f None) = ''http'' \<and>
   client (NewStoreConfigManager f None) = \<lparr>Transport = None\<rparr> \<and>
   (f sc = (Some cfg, None) \<longrightarrow>
      schema (NewStoreConfigManager f (Some sc)) = ''https'' \<and>
      client (NewStoreConfigManager f (Some sc)) =
        \<lparr>Transport = Some \<lparr>TLSClientConfig = Some cfg\<rparr>\<rparr>) \<and>
   (f sc = (r, Some e) \<longrightarrow>
      schema (NewStoreConfigManager f (Some sc)) = ''http'' \<and>
      client (NewStoreConfigManager f (Some sc)) = \<lparr>Transport = None\<rparr>) \<and>
   config (NewStoreConfigManager f security) = None \<and>
   schema (NewStoreConfigManager f security) \<in> {''http'', ''https''}"
  by (auto simp: NewStoreConfigManager_def Let_def split: option.splits prod.splits)

theorem NewStoreConfigManager_schema_witness:
  "schema (NewStoreConfigManager test_ToTLSConfig None) = ''http'' \<and>
   schema (NewStoreConfigManager test_ToTLSConfig (Some ''good'')) = ''https'' \<and>
   client (NewStoreConfigManager test_ToTLSConfig (Some ''good'')) =
     \<lparr>Transport = Some \<lparr>TLSClientConfig = Some ''tls''\<rparr>\<rparr> \<and>
   schema (NewStoreConfigManager test_ToTLSConfig (Some ''expired'')) = ''http'' \<and>
   client (NewStoreConfigManager test_ToTLSConfig (Some ''expired'')) = \<lparr>Transport = None\<rparr>"
  using
    NewStoreConfigManager_schema [of test_ToTLSConfig "''good''" "''tls''" None
      "Error ''bad certificate''" None]
    NewStoreConfigManager_schema [of test_ToTLSConfig "''expired''" "''tls''" None
      "Error ''bad certificate''" None]
  by (simp add: test_ToTLSConfig_def)

subsection \<open>The textual form\<close>

text \<open>
  Claim C9. \<^verbatim>\<open>String\<close> returns what \<^verbatim>\<open>json.MarshalIndent\<close> produces for the snapshot with
  an empty prefix and an indentation of two spaces, and the text \<^verbatim>\<open><nil>\<close> when the
  encoder fails. Its only result is a string: no error is returned, and no step of it
  can panic.
\<close>

theorem String_placeholder:
  "(MarshalIndent c [] ''  '' = Inl e \<longrightarrow> String MarshalIndent c = ''<nil>'') \<and>
   (MarshalIndent c [] ''  '' = Inr data \<longrightarrow> String MarshalIndent c = data)"
  by (simp add: String_def)

theorem String_placeholder_witness:
  "String test_MarshalIndent None = ''null'' \<and>
   String test_MarshalIndent (Some zero_StoreConfig) = ''<nil>''"
  using
    String_placeholder [of test_MarshalIndent None "Error ''unsupported value''" "''null''"]
    String_placeholder [of test_MarshalIndent "Some zero_StoreConfig"
      "Error ''unsupported value''" "''null''"]
  by (simp add: test_MarshalIndent_def)

subsection \<open>Replacing and reading the held snapshot\<close>

lemma UpdateConfig_Some:
  "UpdateConfig (Some mgr) (Some s) = Some (mgr\<lparr>config := Some s\<rparr>)"
  by (simp add: UpdateConfig_def)

lemma GetStoreConfig_Some:
  "GetStoreConfig (Some mgr) = config mgr"
  by (simp add: GetStoreConfig_def)

lemma GetStoreConfig_UpdateConfig:
  "GetStoreConfig (UpdateConfig (Some mgr) (Some s)) = Some s"
  by (simp add: UpdateConfig_Some GetStoreConfig_Some)

lemma GetStoreConfig_not_nil:
  "GetStoreConfig m \<noteq> None \<Longrightarrow> \<exists>mgr. m = Some mgr"
  by (cases m) (simp_all add: GetStoreConfig_def)

text \<open>
  Claim C5. \<^verbatim>\<open>UpdateConfig\<close> with a \<^verbatim>\<open>nil\<close> snapshot leaves the manager as it is, and on
  a \<^verbatim>\<open>nil\<close> manager it does nothing; in both cases \<^verbatim>\<open>GetStoreConfig\<close> returns afterwards
  what it returned before. A held snapshot is not cleared by a \<^verbatim>\<open>nil\<close> one.
\<close>

theorem UpdateConfig_nil:
  fixes m :: "'tls StoreConfigManager option"
  shows "UpdateConfig m None = m \<and>
   UpdateConfig (None :: 'tls StoreConfigManager option) c = None \<and>
   GetStoreConfig (UpdateConfig m None) = GetStoreConfig m \<and>
   GetStoreConfig (UpdateConfig (None :: 'tls StoreConfigManager option) c) =
     GetStoreConfig (None :: 'tls StoreConfigManager option) \<and>
   (GetStoreConfig m = Some s \<longrightarrow> GetStoreConfig (UpdateConfig m None) = Some s)"
  by (simp add: UpdateConfig_def)

text \<open>
  On a manager that holds a snapshot, and on a new manager that holds none.
\<close>

theorem UpdateConfig_nil_witness:
  "GetStoreConfig (Some test_manager) = Some test_config \<and>
   GetStoreConfig (UpdateConfig (Some test_manager) None) = Some test_config \<and>
   GetStoreConfig (UpdateConfig (Some (NewStoreConfigManager test_ToTLSConfig None)) None) = None"
  using UpdateConfig_nil [of "Some test_manager" None test_config]
    UpdateConfig_nil [of "Some (NewStoreConfigManager test_ToTLSConfig None)" None test_config]
  by (simp add: GetStoreConfig_def test_manager_def NewStoreConfigManager_def)

subsection \<open>Loading\<close>

lemma Load_cases:
  "(\<exists>e. Load w (Some mgr) a = Inr (Some e, Some mgr)) \<or>
   (\<exists>cfg. Load w (Some mgr) a = Inr (None, UpdateConfig (Some mgr) (Some cfg)))"
  by (auto simp: Load_def Let_def split: sum.splits)

lemma Load_failed:
  "Load w m a = Inr (Some e, m') \<Longrightarrow> m' = m"
  by (auto simp: Load_def Let_def UpdateConfig_def split: option.splits sum.splits)

text \<open>
  Claim C1. On a manager \<open>mgr\<close>, \<^verbatim>\<open>Load\<close> of the address \<open>a\<close> sends its one request to the
  URL made of the manager's scheme, \<^verbatim>\<open>://\<close>, \<open>a\<close> and \<^verbatim>\<open>/config\<close>. If the request fails, or
  reading the body fails, or decoding the body fails, \<^verbatim>\<open>Load\<close> returns that error and
  the manager, with the snapshot it holds, is as before the call. If decoding succeeds,
  \<^verbatim>\<open>Load\<close> returns no error, the manager is what \<^verbatim>\<open>UpdateConfig\<close> makes of it with the
  decoded snapshot, and \<^verbatim>\<open>GetStoreConfig\<close> returns the decoded snapshot.
\<close>

theorem Load_outcomes:
  "(http_Get w (client mgr) (schema mgr @ ''://'' @ a @ ''/config'') = Inl e \<longrightarrow>
      Load w (Some mgr) a = Inr (Some e, Some mgr)) \<and>
   (http_Get w (client mgr) (schema mgr @ ''://'' @ a @ ''/config'') = Inr resp \<and>
    ioutil_ReadAll w (Body resp) = Inl e \<longrightarrow>
      Load w (Some mgr) a = Inr (Some e, Some mgr)) \<and>
   (http_Get w (client mgr) (schema mgr @ ''://'' @ a @ ''/config'') = Inr resp \<and>
    ioutil_ReadAll w (Body resp) = Inr body \<and>
    json_Unmarshal w body zero_StoreConfig = Inl e \<longrightarrow>
      Load w (Some mgr) a = Inr (Some e, Some mgr)) \<and>
   (http_Get w (client mgr) (schema mgr @ ''://'' @ a @ ''/config'') = Inr resp \<and>
    ioutil_ReadAll w (Body resp) = Inr body \<and>
    json_Unmarshal w body zero_StoreConfig = Inr cfg \<longrightarrow>
      Load w (Some mgr) a = Inr (None, UpdateConfig (Some mgr) (Some cfg)) \<and>
      GetStoreConfig (UpdateConfig (Some mgr) (Some cfg)) = Some cfg)"
  by (simp add: Load_def Let_def GetStoreConfig_UpdateConfig)

text \<open>
  Four calls on a manager that holds \<open>test_config\<close>: to an address that does not answer,
  to one whose body cannot be read, to one whose body is not JSON, and to one that
  serves the empty object.
\<close>

theorem Load_outcomes_witness:
  "Load (test_world (Inr ''{}'')) (Some test_manager) ''10.0.0.1:20180''
     = Inr (Some (Error ''no such host''), Some test_manager) \<and>
   Load (test_world (Inl (Error ''unexpected EOF''))) (Some test_manager) ''127.0.0.1:20180''
     = Inr (Some (Error ''unexpected EOF''), Some test_manager) \<and>
   Load (test_world (Inr ''<html>'')) (Some test_manager) ''127.0.0.1:20180''
     = Inr (Some (Error ''invalid character''), Some test_manager) \<and>
   Load (test_world (Inr ''{}'')) (Some test_manager) ''127.0.0.1:20180''
     = Inr (None, UpdateConfig (Some test_manager) (Some zero_StoreConfig)) \<and>
   GetStoreConfig (UpdateConfig (Some test_manager) (Some zero_StoreConfig))
     = Some zero_StoreConfig \<and>
   GetStoreConfig (Some test_manager) = Some test_config"
  using
    Load_outcomes [of "test_world (Inr ''{}'')" test_manager "''10.0.0.1:20180''"
      "Error ''no such host''" "\<lparr>Body = 0\<rparr>" "''{}''" zero_StoreConfig]
    Load_outcomes [of "test_world (Inl (Error ''unexpected EOF''))" test_manager
      "''127.0.0.1:20180''" "Error ''unexpected EOF''" "\<lparr>Body = 0\<rparr>" "''{}''"
      zero_StoreConfig]
    Load_outcomes [of "test_world (Inr ''<html>'')" test_manager
      "''127.0.0.1:20180''" "Error ''invalid character''" "\<lparr>Body = 0\<rparr>" "''<html>''"
      zero_StoreConfig]
    Load_outcomes [of "test_world (Inr ''{}'')" test_manager
      "''127.0.0.1:20180''" "Error ''invalid character''" "\<lparr>Body = 0\<rparr>" "''{}''"
      zero_StoreConfig]
  by (simp add: test_world_def test_manager_def GetStoreConfig_def)

subsection \<open>Runs\<close>

lemma step_no_replace:
  "\<not> replaces (Some mgr) c \<Longrightarrow> step (Some mgr) c = Inr (Some mgr)"
proof (cases c)
  case (CallLoad w a)
  assume "\<not> replaces (Some mgr) c"
  with CallLoad Load_cases [of w mgr a] show ?thesis
    by auto
next
  case (CallUpdateConfig s)
  assume "\<not> replaces (Some mgr) c"
  with CallUpdateConfig show ?thesis
    by (simp add: UpdateConfig_def)
next
  case CallGetStoreConfig
  then show ?thesis by simp
qed

lemma run_no_replace:
  "\<forall>c\<in>set cs. \<not> replaces (Some mgr) c \<Longrightarrow> run (Some mgr) cs = Inr (Some mgr)"
  by (induction cs) (simp_all add: step_no_replace)

lemma step_loaded:
  assumes "GetStoreConfig m \<noteq> None"
  shows "\<exists>m'. step m c = Inr m' \<and> GetStoreConfig m' \<noteq> None"
proof -
  from assms obtain mgr where m: "m = Some mgr"
    using GetStoreConfig_not_nil by blast
  show ?thesis
  proof (cases c)
    case (CallLoad w a)
    with m assms Load_cases [of w mgr a] show ?thesis
      by (auto simp: GetStoreConfig_UpdateConfig)
  next
    case (CallUpdateConfig s)
    with m assms show ?thesis
      by (cases s) (simp_all add: UpdateConfig_def GetStoreConfig_def)
  next
    case CallGetStoreConfig
    with assms show ?thesis by simp
  qed
qed

lemma run_loaded:
  "GetStoreConfig m \<noteq> None \<Longrightarrow> \<exists>m'. run m cs = Inr m' \<and> GetStoreConfig m' \<noteq> None"
proof (induction cs arbitrary: m)
  case Nil
  then show ?case by simp
next
  case (Cons c cs)
  from step_loaded [OF Cons.prems, of c] obtain m1
    where s: "step m c = Inr m1" and l: "GetStoreConfig m1 \<noteq> None"
    by blast
  from Cons.IH [OF l] s show ?case by simp
qed

lemma step_changes:
  assumes "step m c = Inr m'" and "GetStoreConfig m' \<noteq> GetStoreConfig m"
  shows "replaces m c \<and> GetStoreConfig m' \<noteq> None"
proof (cases m)
  case None
  with assms show ?thesis
    by (cases c) (auto simp: Load_def UpdateConfig_def)
next
  case (Some mgr)
  show ?thesis
  proof (cases c)
    case (CallLoad w a)
    with Some assms Load_cases [of w mgr a] show ?thesis
      by (auto simp: GetStoreConfig_UpdateConfig)
  next
    case (CallUpdateConfig s)
    with Some assms show ?thesis
      by (cases s) (auto simp: UpdateConfig_def GetStoreConfig_def)
  next
    case CallGetStoreConfig
    with assms show ?thesis by simp
  qed
qed

text \<open>
  Claim C3. On a manager that is not \<^verbatim>\<open>nil\<close>, after \<^verbatim>\<open>UpdateConfig\<close> with a snapshot \<open>s\<close>
  that is not \<^verbatim>\<open>nil\<close>, \<^verbatim>\<open>GetStoreConfig\<close> returns \<open>s\<close>; and any sequence of calls none of
  which is an \<^verbatim>\<open>UpdateConfig\<close> with a snapshot that is not \<^verbatim>\<open>nil\<close> or a \<^verbatim>\<open>Load\<close> that
  succeeds runs to its end and leaves the manager as it was, so that \<^verbatim>\<open>GetStoreConfig\<close>
  still returns \<open>s\<close>.
\<close>

theorem Update_then_Current:
  "GetStoreConfig (UpdateConfig (Some mgr) (Some s)) = Some s \<and>
   ((\<forall>c\<in>set cs. \<not> replaces (UpdateConfig (Some mgr) (Some s)) c) \<longrightarrow>
      run (UpdateConfig (Some mgr) (Some s)) cs = Inr (UpdateConfig (Some mgr) (Some s)))"
  using run_no_replace [of cs "mgr\<lparr>config := Some s\<rparr>"]
  by (simp add: GetStoreConfig_Some UpdateConfig_Some)

text \<open>
  After an update with the zero-valued snapshot: a read, an update with \<^verbatim>\<open>nil\<close>, a \<^verbatim>\<open>Load\<close>
  whose body cannot be read and a \<^verbatim>\<open>Load\<close> from an address that does not answer.
\<close>

theorem Update_then_Current_witness:
  "GetStoreConfig (UpdateConfig (Some test_manager) (Some zero_StoreConfig))
     = Some zero_StoreConfig \<and>
   run (UpdateConfig (Some test_manager) (Some zero_StoreConfig))
     [CallGetStoreConfig, CallUpdateConfig None,
      CallLoad (test_world (Inl (Error ''unexpected EOF''))) ''127.0.0.1:20180'',
      CallLoad (test_world (Inr ''{}'')) ''10.0.0.1:20180'']
     = Inr (UpdateConfig (Some test_manager) (Some zero_StoreConfig))"
  using Update_then_Current [of test_manager zero_StoreConfig
      "[CallGetStoreConfig, CallUpdateConfig None,
        CallLoad (test_world (Inl (Error ''unexpected EOF''))) ''127.0.0.1:20180'',
        CallLoad (test_world (Inr ''{}'')) ''10.0.0.1:20180'']"]
  by (simp add: UpdateConfig_def Load_def test_world_def test_manager_def)

text \<open>
  Claim C6. From a manager whose \<^verbatim>\<open>GetStoreConfig\<close> returns a snapshot, every sequence
  of \<^verbatim>\<open>Load\<close>, \<^verbatim>\<open>UpdateConfig\<close> and \<^verbatim>\<open>GetStoreConfig\<close> calls runs to its end, and
  \<^verbatim>\<open>GetStoreConfig\<close> returns a snapshot afterwards. A call after which \<^verbatim>\<open>GetStoreConfig\<close>
  returns something else than before is a \<^verbatim>\<open>Load\<close> that succeeded or an \<^verbatim>\<open>UpdateConfig\<close>
  with a snapshot that is not \<^verbatim>\<open>nil\<close>, and a snapshot is held after it. A \<^verbatim>\<open>Load\<close> that
  returns an error leaves the manager as it was.
\<close>

theorem never_unloaded:
  "(GetStoreConfig m \<noteq> None \<longrightarrow>
      (\<exists>m'. run m cs = Inr m' \<and> GetStoreConfig m' \<noteq> None)) \<and>
   (step m c = Inr m1 \<and> GetStoreConfig m1 \<noteq> GetStoreConfig m \<longrightarrow>
      replaces m c \<and> GetStoreConfig m1 \<noteq> None) \<and>
   (Load w m a = Inr (Some e, m2) \<longrightarrow> m2 = m)"
  using run_loaded [of m cs] step_changes [of m c m1] Load_failed [of w m a e m2]
  by blast

text \<open>
  A run from a manager that holds \<open>test_config\<close>; the first successful \<^verbatim>\<open>Load\<close> of a new
  manager; a failed \<^verbatim>\<open>Load\<close>.
\<close>

theorem never_unloaded_witness:
  "(\<exists>m'. run (Some test_manager)
        [CallUpdateConfig None,
         CallLoad (test_world (Inr ''<html>'')) ''127.0.0.1:20180'',
         CallLoad (test_world (Inr ''{}'')) ''127.0.0.1:20180'',
         CallGetStoreConfig,
         CallUpdateConfig (Some test_config)] = Inr m' \<and>
      GetStoreConfig m' \<noteq> None) \<and>
   GetStoreConfig (Some (NewStoreConfigManager test_ToTLSConfig None)) = None \<and>
   replaces (Some (NewStoreConfigManager test_ToTLSConfig None))
     (CallLoad (test_world (Inr ''{}'')) ''127.0.0.1:20180'') \<and>
   GetStoreConfig (UpdateConfig (Some (NewStoreConfigManager test_ToTLSConfig None))
     (Some zero_StoreConfig)) \<noteq> None"
  using never_unloaded [of "Some test_manager"
      "[CallUpdateConfig None,
        CallLoad (test_world (Inr ''<html>'')) ''127.0.0.1:20180'',
        CallLoad (test_world (Inr ''{}'')) ''127.0.0.1:20180'',
        CallGetStoreConfig,
        CallUpdateConfig (Some test_config)]"
      "CallUpdateConfig None" "Some test_manager"
      "test_world (Inr ''<html>'')" "''127.0.0.1:20180''" "Error ''invalid character''"
      "Some test_manager"]
    never_unloaded [of "Some (NewStoreConfigManager test_ToTLSConfig None)" "[]"
      "CallLoad (test_world (Inr ''{}'')) ''127.0.0.1:20180''"
      "UpdateConfig (Some (NewStoreConfigManager test_ToTLSConfig None)) (Some zero_StoreConfig)"
      "test_world (Inr ''<html>'')" "''127.0.0.1:20180''" "Error ''invalid character''"
      "Some (NewStoreConfigManager test_ToTLSConfig None)"]
  by (simp add: GetStoreConfig_def UpdateConfig_def Load_def test_world_def test_manager_def
      NewStoreConfigManager_def)

subsection \<open>Concurrent readers and writers\<close>

text \<open>
  A goroutine that runs alone does what the sequential functions do.
\<close>

lemma thread_step_Update:
  "Some (fst (thread_step mgr (Update c))) = UpdateConfig (Some mgr) c"
  by (simp add: UpdateConfig_def)

lemma thread_step_Get:
  "snd (thread_step mgr (snd (thread_step mgr GetTest))) = Returned (GetStoreConfig (Some mgr))"
  by (simp add: GetStoreConfig_def)

lemma thread_step_published:
  assumes "None \<in> A" "config mgr \<in> A" "within A t"
  shows "config (fst (thread_step mgr t)) \<in> A \<and> within A (snd (thread_step mgr t))"
  using assms by (cases t) simp_all

lemma interleave_published:
  "None \<in> A \<Longrightarrow> published A s \<Longrightarrow> published A (interleave sched s)"
proof (induction sched s rule: interleave.induct)
  case (1 s)
  then show ?case by simp
next
  case (2 i sched mgr ts)
  show ?case
  proof (cases "i < length ts")
    case True
    let ?t = "ts ! i"
    let ?t' = "snd (thread_step mgr ?t)"
    from True have "?t \<in> set ts" by simp
    with "2.prems"(2) have old: "config mgr \<in> A" "within A ?t"
      by (simp_all add: published_def)
    note new = thread_step_published [OF "2.prems"(1) old]
    have "within A u" if "u \<in> set (ts[i := ?t'])" for u
    proof -
      from that set_update_subset_insert [of ts i ?t'] have "u = ?t' \<or> u \<in> set ts"
        by blast
      with new "2.prems"(2) show ?thesis
        by (auto simp: published_def)
    qed
    with new have "published A (fst (thread_step mgr ?t), ts[i := ?t'])"
      by (simp add: published_def)
    from "2.IH"(1) [OF True "2.prems"(1) this] True show ?thesis by simp
  next
    case False
    with "2.IH"(2) "2.prems" show ?thesis by simp
  qed
qed

lemma within_start:
  "t = GetTest \<or> (\<exists>c. t = Update c) \<Longrightarrow> t \<in> set ts \<Longrightarrow>
   within (insert None (insert slot {c. Update c \<in> set ts})) t"
  by auto

text \<open>
  Claim C4. Let any number of goroutines each start a \<^verbatim>\<open>GetStoreConfig\<close> or an
  \<^verbatim>\<open>UpdateConfig\<close> on one manager, and let their steps be interleaved in any order. Then
  whatever a \<^verbatim>\<open>GetStoreConfig\<close> returns is \<^verbatim>\<open>nil\<close>, or the snapshot the manager held at
  the start, or the snapshot passed to one of the \<^verbatim>\<open>UpdateConfig\<close> calls: a whole
  snapshot of one call, never a mixture of two.
\<close>

theorem readers_see_published:
  assumes "\<forall>t \<in> set ts. t = GetTest \<or> (\<exists>c. t = Update c)"
    and "Returned r \<in> set (snd (interleave sched (mgr, ts)))"
  shows "r = None \<or> r = config mgr \<or> Update r \<in> set ts"
proof -
  let ?A = "insert None (insert (config mgr) {c. Update c \<in> set ts})"
  have "published ?A (mgr, ts)"
    using assms(1) within_start [of _ ts "config mgr"] by (simp add: published_def)
  then have "published ?A (interleave sched (mgr, ts))"
    by (intro interleave_published) simp_all
  with assms(2) have "within ?A (Returned r)"
    unfolding published_def by blast
  then show ?thesis by simp
qed

text \<open>
  Two writers and two readers on a manager that holds \<open>test_config\<close>. The first reader
  passes its test, the first writer stores the zero-valued snapshot, and the reader then
  loads it.
\<close>

theorem readers_see_published_witness:
  "Returned (Some zero_StoreConfig) \<in> set (snd (interleave [2, 0, 2, 3, 1, 3]
      (test_manager, [Update (Some zero_StoreConfig), Update None, GetTest, GetTest]))) \<and>
   Update (Some zero_StoreConfig)
     \<in> set [Update (Some zero_StoreConfig), Update None, GetTest, GetTest]"
  using readers_see_published
    [of "[Update (Some zero_StoreConfig), Update None, GetTest, GetTest]"
      "Some zero_StoreConfig" "[2, 0, 2, 3, 1, 3]" test_manager]
  by (simp add: test_manager_def)

end
